theory Spec2Isabelle
  imports Main
begin

section \<open>Expression nodes of the Emojicode compiler (Compiler/AST/ASTExpr.hpp)\<close>

subsection \<open>Types the header uses but does not declare\<close>

text \<open>
  Modelled from the spec: \<open>SourcePosition\<close> (ASTNode.hpp) is not part of the header.
  A position is a line, a character and a file name; the header only copies positions.
\<close>

datatype SourcePosition = SourcePosition (line: nat) (character: nat) (fileName: string)

text \<open>
  Modelled from the spec: class \<open>Type\<close> (Types/Type.hpp) is not part of the header. The
  header uses \<open>Type::noReturn()\<close>, the type of an expression that never produces a value;
  the documentation of \<open>handleResult\<close> further distinguishes managed types from all others.
\<close>

datatype Type = NoReturn | Integer | ValueType nat | ManagedType nat

definition noReturn :: Type where
  "noReturn = NoReturn"

fun isManaged :: "Type \<Rightarrow> bool" where
  "isManaged (ManagedType _) = True"
| "isManaged _ = False"

text \<open>
  Modelled from the spec: \<open>Mood\<close> (Functions/Mood.hpp) is not part of the header, which
  names \<open>Mood::Imperative\<close> only.
\<close>

datatype Mood = Imperative | OtherMood nat

text \<open>
  \<open>llvm::Value*\<close> is a nullable pointer: \<open>None\<close> is \<open>nullptr\<close>. Syntactic types,
  token types, functions and variables are opaque handles; a \<open>std::u32string\<close> is a list
  of code points.
\<close>

type_synonym Value = nat
type_synonym ASTType = nat
type_synonym TokenType = nat
type_synonym Function = nat
type_synonym VariableID = nat
type_synonym u32string = "nat list"

subsection \<open>The classes\<close>

text \<open>
  The data members of \<open>ASTExpr\<close>, with the position it inherits from \<open>ASTNode\<close>, and the
  data members \<open>ASTCall\<close> adds. A member \<open>name_\<close> of the header is the field \<open>name_m\<close>.
\<close>

record ASTExprData =
  position :: SourcePosition
  isTemporary_m :: bool
  expressionType_m :: Type

record ASTCallData =
  handledError_m :: bool
  errorDest_m :: "Value option"

text \<open>
  \<open>ASTArguments\<close> is an \<open>ASTNode\<close>, not an expression; \<open>'e\<close> is the expression type.
  Its members are the position, \<open>mood_\<close>, \<open>genericArguments_\<close>, \<open>arguments_\<close> and
  \<open>genericArgumentsTypes_\<close>, in this order; the selectors are the getters \<open>mood()\<close>,
  \<open>genericArguments()\<close>, \<open>args()\<close> and \<open>genericArgumentTypes()\<close> that return them.
\<close>

datatype 'e ASTArguments = ASTArguments
  (argumentsPosition: SourcePosition)
  (mood: Mood)
  (genericArguments: "ASTType list")
  (args: "'e list")
  (genericArgumentTypes: "Type list")

text \<open>
  The part of a call node that \<open>ASTCall\<close> and its two subclasses add to \<open>ASTExpr\<close>:
  \<open>ASTCallableCall\<close> has \<open>callable_\<close> and \<open>args_\<close>; \<open>ASTSuper\<close> has \<open>name_\<close>,
  \<open>function_\<close>, \<open>calleeType_\<close>, \<open>args_\<close>, \<open>init_\<close> and \<open>manageErrorProneness_\<close>.
\<close>

datatype 'e ASTCall =
    ASTCallableCall ASTCallData 'e "'e ASTArguments"
  | ASTSuper ASTCallData u32string "Function option" Type "'e ASTArguments" bool bool

text \<open>
  One constructor per class of the header, the two call classes under \<open>ASTCallExpr\<close>.
  \<open>ASTUnary\<close> and \<open>ASTUnaryMFForwarding\<close> are abstract in the header; their constructors
  stand for a subclass that inherits the constructor and overrides nothing the header
  defines. A child held by a \<open>std::shared_ptr\<close> is a subtree: the pointer is not null
  and the node has this one owner. \<open>varId_\<close> of \<open>ASTConditionalAssignment\<close> has no
  value before analysis.
\<close>

datatype ASTExpr =
    ASTUnary ASTExprData ASTExpr
  | ASTUnaryMFForwarding ASTExprData ASTExpr
  | ASTTypeAsValue ASTExprData ASTType TokenType
  | ASTSizeOf ASTExprData ASTType
  | ASTCallExpr ASTExprData "ASTExpr ASTCall"
  | ASTConditionalAssignment ASTExprData u32string ASTExpr "VariableID option"

fun exprData :: "ASTExpr \<Rightarrow> ASTExprData" where
  "exprData (ASTUnary d e) = d"
| "exprData (ASTUnaryMFForwarding d e) = d"
| "exprData (ASTTypeAsValue d t k) = d"
| "exprData (ASTSizeOf d t) = d"
| "exprData (ASTCallExpr d c) = d"
| "exprData (ASTConditionalAssignment d n e v) = d"

fun updateExprData :: "(ASTExprData \<Rightarrow> ASTExprData) \<Rightarrow> ASTExpr \<Rightarrow> ASTExpr" where
  "updateExprData u (ASTUnary d e) = ASTUnary (u d) e"
| "updateExprData u (ASTUnaryMFForwarding d e) = ASTUnaryMFForwarding (u d) e"
| "updateExprData u (ASTTypeAsValue d t k) = ASTTypeAsValue (u d) t k"
| "updateExprData u (ASTSizeOf d t) = ASTSizeOf (u d) t"
| "updateExprData u (ASTCallExpr d c) = ASTCallExpr (u d) c"
| "updateExprData u (ASTConditionalAssignment d n e v) = ASTConditionalAssignment (u d) n e v"

fun callData :: "'e ASTCall \<Rightarrow> ASTCallData" where
  "callData (ASTCallableCall c e a) = c"
| "callData (ASTSuper c n f t a i m) = c"

fun updateCallData :: "(ASTCallData \<Rightarrow> ASTCallData) \<Rightarrow> 'e ASTCall \<Rightarrow> 'e ASTCall" where
  "updateCallData u (ASTCallableCall c e a) = ASTCallableCall (u c) e a"
| "updateCallData u (ASTSuper c n f t a i m) = ASTSuper (u c) n f t a i m"

text \<open>The expressions a node holds: \<open>expr_\<close>, or \<open>callable_\<close> and the arguments.\<close>

fun callChildren :: "'e ASTCall \<Rightarrow> 'e list" where
  "callChildren (ASTCallableCall c e a) = e # args a"
| "callChildren (ASTSuper c n f t a i m) = args a"

fun children :: "ASTExpr \<Rightarrow> ASTExpr list" where
  "children (ASTUnary d e) = [e]"
| "children (ASTUnaryMFForwarding d e) = [e]"
| "children (ASTTypeAsValue d t k) = []"
| "children (ASTSizeOf d t) = []"
| "children (ASTCallExpr d c) = callChildren c"
| "children (ASTConditionalAssignment d n e v) = [e]"

subsection \<open>Constructors\<close>

text \<open>
  \<open>ASTExpr(p)\<close> stores the position; the member initialisers give \<open>isTemporary_ = true\<close>
  and \<open>expressionType_ = Type::noReturn()\<close>. \<open>ASTCall(p)\<close> adds \<open>handledError_ = false\<close>
  and \<open>errorDest_ = nullptr\<close>.
\<close>

definition ASTExpr_new :: "SourcePosition \<Rightarrow> ASTExprData" where
  "ASTExpr_new p = \<lparr>position = p, isTemporary_m = True, expressionType_m = noReturn\<rparr>"

definition ASTCall_new :: ASTCallData where
  "ASTCall_new = \<lparr>handledError_m = False, errorDest_m = None\<rparr>"

definition ASTArguments_new :: "SourcePosition \<Rightarrow> 'e ASTArguments" where
  "ASTArguments_new p = ASTArguments p Imperative [] [] []"

definition ASTArguments_newArgs :: "SourcePosition \<Rightarrow> 'e list \<Rightarrow> 'e ASTArguments" where
  "ASTArguments_newArgs p as = ASTArguments p Imperative [] as []"

definition ASTArguments_newMood :: "SourcePosition \<Rightarrow> Mood \<Rightarrow> 'e ASTArguments" where
  "ASTArguments_newMood p m = ASTArguments p m [] [] []"

definition ASTUnary_new :: "ASTExpr \<Rightarrow> SourcePosition \<Rightarrow> ASTExpr" where
  "ASTUnary_new v p = ASTUnary (ASTExpr_new p) v"

definition ASTUnaryMFForwarding_new :: "ASTExpr \<Rightarrow> SourcePosition \<Rightarrow> ASTExpr" where
  "ASTUnaryMFForwarding_new v p = ASTUnaryMFForwarding (ASTExpr_new p) v"

definition ASTTypeAsValue_new :: "ASTType \<Rightarrow> TokenType \<Rightarrow> SourcePosition \<Rightarrow> ASTExpr" where
  "ASTTypeAsValue_new t k p = ASTTypeAsValue (ASTExpr_new p) t k"

definition ASTSizeOf_new :: "ASTType \<Rightarrow> SourcePosition \<Rightarrow> ASTExpr" where
  "ASTSizeOf_new t p = ASTSizeOf (ASTExpr_new p) t"

definition ASTCallableCall_new ::
  "ASTExpr \<Rightarrow> ASTExpr ASTArguments \<Rightarrow> SourcePosition \<Rightarrow> ASTExpr" where
  "ASTCallableCall_new v as p = ASTCallExpr (ASTExpr_new p) (ASTCallableCall ASTCall_new v as)"

definition ASTSuper_new ::
  "u32string \<Rightarrow> ASTExpr ASTArguments \<Rightarrow> SourcePosition \<Rightarrow> ASTExpr" where
  "ASTSuper_new name as p =
     ASTCallExpr (ASTExpr_new p) (ASTSuper ASTCall_new name None noReturn as False False)"

definition ASTConditionalAssignment_new ::
  "u32string \<Rightarrow> ASTExpr \<Rightarrow> SourcePosition \<Rightarrow> ASTExpr" where
  "ASTConditionalAssignment_new varName e p =
     ASTConditionalAssignment (ASTExpr_new p) varName e None"

subsection \<open>Members of \<open>ASTExpr\<close>\<close>

definition nodePosition :: "ASTExpr \<Rightarrow> SourcePosition" where
  "nodePosition e = position (exprData e)"

definition expressionType :: "ASTExpr \<Rightarrow> Type" where
  "expressionType e = expressionType_m (exprData e)"

definition setExpressionType :: "Type \<Rightarrow> ASTExpr \<Rightarrow> ASTExpr" where
  "setExpressionType t e = updateExprData (\<lambda>d. d\<lparr>expressionType_m := t\<rparr>) e"

definition isTemporary :: "ASTExpr \<Rightarrow> bool" where
  "isTemporary e = isTemporary_m (exprData e)"

text \<open>
  \<open>unsetIsTemporary\<close> clears the flag and then calls the virtual \<open>unsetIsTemporaryPost\<close>,
  which \<open>ASTUnaryMFForwarding\<close> overrides (\<open>final\<close>) to call \<open>unsetIsTemporary\<close> on
  \<open>expr_\<close>; every other class of the header has the empty body of \<open>ASTExpr\<close>.
\<close>

fun unsetIsTemporary :: "ASTExpr \<Rightarrow> ASTExpr"
  and unsetIsTemporaryPost :: "ASTExpr \<Rightarrow> ASTExpr" where
  "unsetIsTemporary (ASTUnary d e) =
     unsetIsTemporaryPost (ASTUnary (d\<lparr>isTemporary_m := False\<rparr>) e)"
| "unsetIsTemporary (ASTUnaryMFForwarding d e) =
     unsetIsTemporaryPost (ASTUnaryMFForwarding (d\<lparr>isTemporary_m := False\<rparr>) e)"
| "unsetIsTemporary (ASTTypeAsValue d t k) =
     unsetIsTemporaryPost (ASTTypeAsValue (d\<lparr>isTemporary_m := False\<rparr>) t k)"
| "unsetIsTemporary (ASTSizeOf d t) =
     unsetIsTemporaryPost (ASTSizeOf (d\<lparr>isTemporary_m := False\<rparr>) t)"
| "unsetIsTemporary (ASTCallExpr d c) =
     unsetIsTemporaryPost (ASTCallExpr (d\<lparr>isTemporary_m := False\<rparr>) c)"
| "unsetIsTemporary (ASTConditionalAssignment d n e v) =
     unsetIsTemporaryPost (ASTConditionalAssignment (d\<lparr>isTemporary_m := False\<rparr>) n e v)"
| "unsetIsTemporaryPost (ASTUnaryMFForwarding d e) =
     ASTUnaryMFForwarding d (unsetIsTemporary e)"
| "unsetIsTemporaryPost e = e"

text \<open>\<open>mutateReference\<close> has an empty body in \<open>ASTExpr\<close>; no class of the header overrides it.\<close>

definition mutateReference :: "ASTExpr \<Rightarrow> ASTExpr" where
  "mutateReference e = e"

text \<open>
  \<open>analyseMemoryFlow\<close> is pure virtual. \<open>ASTTypeAsValue\<close> and \<open>ASTSizeOf\<close> override it in
  the header with an empty body, which leaves the analyser and the node as they are; the
  overrides of the other classes are declared only, and give \<open>None\<close> here.
\<close>

fun analyseMemoryFlow :: "'a \<Rightarrow> 'c \<Rightarrow> ASTExpr \<Rightarrow> ('a \<times> ASTExpr) option" where
  "analyseMemoryFlow analyser c (ASTTypeAsValue d t k) = Some (analyser, ASTTypeAsValue d t k)"
| "analyseMemoryFlow analyser c (ASTSizeOf d t) = Some (analyser, ASTSizeOf d t)"
| "analyseMemoryFlow analyser c e = None"

subsection \<open>Members of \<open>ASTCall\<close>\<close>

definition setHandledError :: "'e ASTCall \<Rightarrow> 'e ASTCall" where
  "setHandledError c = updateCallData (\<lambda>x. x\<lparr>handledError_m := True\<rparr>) c"

definition setErrorPointer :: "Value option \<Rightarrow> 'e ASTCall \<Rightarrow> 'e ASTCall" where
  "setErrorPointer errorDest c = updateCallData (\<lambda>x. x\<lparr>errorDest_m := errorDest\<rparr>) c"

definition errorPointer :: "'e ASTCall \<Rightarrow> Value option" where
  "errorPointer c = errorDest_m (callData c)"

text \<open>
  \<open>errorType\<close> and \<open>isErrorProne\<close> are pure virtual in \<open>ASTCall\<close>. \<open>ASTCallableCall\<close>
  defines both in the header. \<open>ASTSuper\<close> declares them only, so what they return there
  is a parameter.
\<close>

fun errorType :: "(ASTExpr ASTCall \<Rightarrow> Type) \<Rightarrow> ASTExpr ASTCall \<Rightarrow> Type" where
  "errorType superErrorType (ASTCallableCall c callable a) = expressionType callable"
| "errorType superErrorType (ASTSuper c n f t a i m) = superErrorType (ASTSuper c n f t a i m)"

fun isErrorProne :: "('e ASTCall \<Rightarrow> bool) \<Rightarrow> 'e ASTCall \<Rightarrow> bool" where
  "isErrorProne superErrorProne (ASTCallableCall c callable a) = False"
| "isErrorProne superErrorProne (ASTSuper c n f t a i m) =
     superErrorProne (ASTSuper c n f t a i m)"

subsection \<open>\<open>insertNode\<close>\<close>

text \<open>
  \<open>node\<close> points to a slot holding a \<open>std::shared_ptr\<close>, which may be empty; reading the
  position through an empty pointer has no defined result (\<open>None\<close>). \<open>T\<close> is the
  constructor of the template argument, called with the node moved out of the slot, its
  position and the remaining arguments. The result is the new content of the slot and
  the pointer returned.
\<close>

definition insertNode ::
  "(ASTExpr \<Rightarrow> SourcePosition \<Rightarrow> 'a \<Rightarrow> ASTExpr) \<Rightarrow> ASTExpr option \<Rightarrow> 'a
     \<Rightarrow> (ASTExpr option \<times> ASTExpr) option" where
  "insertNode T node as =
     (case node of
        None \<Rightarrow> None
      | Some e \<Rightarrow>
          (let pos = nodePosition e;
               n = T e pos as
           in Some (Some n, n)))"

subsection \<open>Members of \<open>ASTArguments\<close>\<close>

definition addGenericArgument :: "ASTType \<Rightarrow> 'e ASTArguments \<Rightarrow> 'e ASTArguments" where
  "addGenericArgument t a =
     ASTArguments (argumentsPosition a) (mood a) (genericArguments a @ [t]) (args a)
       (genericArgumentTypes a)"

definition addArguments :: "'e \<Rightarrow> 'e ASTArguments \<Rightarrow> 'e ASTArguments" where
  "addArguments arg a =
     ASTArguments (argumentsPosition a) (mood a) (genericArguments a) (args a @ [arg])
       (genericArgumentTypes a)"

definition setMood :: "Mood \<Rightarrow> 'e ASTArguments \<Rightarrow> 'e ASTArguments" where
  "setMood m a =
     ASTArguments (argumentsPosition a) m (genericArguments a) (args a)
       (genericArgumentTypes a)"

definition setGenericArgumentTypes :: "Type list \<Rightarrow> 'e ASTArguments \<Rightarrow> 'e ASTArguments" where
  "setGenericArgumentTypes types a =
     ASTArguments (argumentsPosition a) (mood a) (genericArguments a) (args a) types"

subsection \<open>Sequences of calls on one node\<close>

text \<open>
  The members of the header that write to a node, as operations: \<open>setExpressionType\<close>,
  \<open>unsetIsTemporary\<close>, \<open>mutateReference\<close> and \<open>analyseMemoryFlow\<close> of \<open>ASTExpr\<close>, and
  \<open>setHandledError\<close> and \<open>setErrorPointer\<close>, which only a call node has. An operation the
  node's class does not have, or whose body is not in the header, gives \<open>None\<close>.
  \<open>isTemporary_\<close> is private to \<open>ASTExpr\<close>, so a body outside the header reaches it
  through \<open>unsetIsTemporary\<close> only.
\<close>

datatype 'c ExprOp =
    OpSetExpressionType Type
  | OpUnsetIsTemporary
  | OpMutateReference
  | OpAnalyseMemoryFlow 'c
  | OpSetHandledError
  | OpSetErrorPointer "Value option"

fun onCall :: "(ASTExpr ASTCall \<Rightarrow> ASTExpr ASTCall) \<Rightarrow> ASTExpr \<Rightarrow> ASTExpr option" where
  "onCall f (ASTCallExpr d c) = Some (ASTCallExpr d (f c))"
| "onCall f e = None"

fun applyOp :: "'c ExprOp \<Rightarrow> ASTExpr \<Rightarrow> ASTExpr option" where
  "applyOp (OpSetExpressionType t) e = Some (setExpressionType t e)"
| "applyOp OpUnsetIsTemporary e = Some (unsetIsTemporary e)"
| "applyOp OpMutateReference e = Some (mutateReference e)"
| "applyOp (OpAnalyseMemoryFlow c) e = map_option snd (analyseMemoryFlow () c e)"
| "applyOp OpSetHandledError e = onCall setHandledError e"
| "applyOp (OpSetErrorPointer v) e = onCall (setErrorPointer v) e"

fun applyOps :: "'c ExprOp list \<Rightarrow> ASTExpr \<Rightarrow> ASTExpr option" where
  "applyOps [] e = Some e"
| "applyOps (x # xs) e =
     (case applyOp x e of None \<Rightarrow> None | Some e' \<Rightarrow> applyOps xs e')"

text \<open>
  The \<open>isTemporary_\<close> flags of a node and of every node below it, the node's own flag
  first. Under a call node these are the flags of \<open>callChildren\<close>, one child after the
  other.
\<close>

primrec temporaries :: "ASTExpr \<Rightarrow> bool list" where
  "temporaries (ASTUnary d e) = isTemporary_m d # temporaries e"
| "temporaries (ASTUnaryMFForwarding d e) = isTemporary_m d # temporaries e"
| "temporaries (ASTTypeAsValue d t k) = [isTemporary_m d]"
| "temporaries (ASTSizeOf d t) = [isTemporary_m d]"
| "temporaries (ASTCallExpr d c) =
     isTemporary_m d # concat (callChildren (map_ASTCall temporaries c))"
| "temporaries (ASTConditionalAssignment d n e v) = isTemporary_m d # temporaries e"

text \<open>The members of \<open>ASTArguments\<close> that write to it, as operations.\<close>

datatype 'e ArgumentsOp =
    OpAddGenericArgument ASTType
  | OpAddArguments 'e
  | OpSetMood Mood
  | OpSetGenericArgumentTypes "Type list"

fun applyArgumentsOp :: "'e ArgumentsOp \<Rightarrow> 'e ASTArguments \<Rightarrow> 'e ASTArguments" where
  "applyArgumentsOp (OpAddGenericArgument t) a = addGenericArgument t a"
| "applyArgumentsOp (OpAddArguments e) a = addArguments e a"
| "applyArgumentsOp (OpSetMood m) a = setMood m a"
| "applyArgumentsOp (OpSetGenericArgumentTypes ts) a = setGenericArgumentTypes ts a"

fun applyArgumentsOps :: "'e ArgumentsOp list \<Rightarrow> 'e ASTArguments \<Rightarrow> 'e ASTArguments" where
  "applyArgumentsOps [] a = a"
| "applyArgumentsOps (x # xs) a = applyArgumentsOps xs (applyArgumentsOp x a)"

text \<open>The expressions that the \<open>addArguments\<close> calls of a sequence pass, in call order.\<close>

fun addedArguments :: "'e ArgumentsOp list \<Rightarrow> 'e list" where
  "addedArguments [] = []"
| "addedArguments (OpAddArguments e # xs) = e # addedArguments xs"
| "addedArguments (x # xs) = addedArguments xs"

subsection \<open>Members declared in the header and defined elsewhere\<close>

datatype CompilerError = SemanticError | UnresolvedMember | UnhandledError

text \<open>
  Modelled from the spec: \<open>ASTCall::ensureErrorIsHandled\<close> is declared in the header
  and defined outside it. It fails with an unhandled-error fault if \<open>isErrorProne()\<close>
  is true and neither \<open>setHandledError\<close> was called nor an error destination was set.
\<close>

definition ensureErrorIsHandled ::
  "(ASTExpr ASTCall \<Rightarrow> bool) \<Rightarrow> ASTExpr ASTCall \<Rightarrow> CompilerError + unit" where
  "ensureErrorIsHandled superErrorProne c =
     (if isErrorProne superErrorProne c \<and> \<not> handledError_m (callData c) \<and> errorPointer c = None
      then Inl UnhandledError
      else Inr ())"

text \<open>
  Modelled from the spec: the bodies of \<open>analyse\<close> and \<open>generate\<close> of the call classes
  are not in the header. The passes are strictly ordered; \<open>ensureErrorIsHandled\<close> is
  invoked near the end of the node's own \<open>analyse\<close>; a fault is raised at the point of
  detection and never recovered from, so that \<open>generate\<close> (a parameter) runs only on a
  node whose analysis raised none.
\<close>

definition compileCall ::
  "(ASTExpr ASTCall \<Rightarrow> bool) \<Rightarrow> (ASTExpr ASTCall \<Rightarrow> 'v) \<Rightarrow> ASTExpr ASTCall
     \<Rightarrow> CompilerError + 'v" where
  "compileCall superErrorProne generate c =
     (case ensureErrorIsHandled superErrorProne c of
        Inl fault \<Rightarrow> Inl fault
      | Inr u \<Rightarrow> Inr (generate c))"

text \<open>
  Modelled from the spec: \<open>FunctionCodeGenerator\<close> is not in the header. What the spec
  keeps of it is the list of temporary objects to release at the end of the statement,
  to which \<open>addTemporaryObject\<close> appends a value with the optional reference to it.
\<close>

record FunctionCodeGenerator =
  temporaryObjects :: "(Value option \<times> Value option) list"

definition addTemporaryObject ::
  "Value option \<Rightarrow> Value option \<Rightarrow> FunctionCodeGenerator \<Rightarrow> FunctionCodeGenerator" where
  "addTemporaryObject result vtReference fg =
     fg\<lparr>temporaryObjects := temporaryObjects fg @ [(result, vtReference)]\<rparr>"

text \<open>
  Modelled from the spec: \<open>ASTExpr::handleResult\<close> and \<open>ASTExpr::producesTemporaryObject\<close>
  are declared in the header and defined outside it. If the expression is temporary and
  \<open>expressionType()\<close> is a managed type, \<open>handleResult\<close> adds the value to the temporary
  objects; it always returns \<open>result\<close>. \<open>producesTemporaryObject\<close> reports whether the
  node's value is registered in this way.
\<close>

definition producesTemporaryObject :: "ASTExpr \<Rightarrow> bool" where
  "producesTemporaryObject e = (isTemporary e \<and> isManaged (expressionType e))"

definition handleResult ::
  "ASTExpr \<Rightarrow> FunctionCodeGenerator \<Rightarrow> Value option \<Rightarrow> Value option
     \<Rightarrow> FunctionCodeGenerator \<times> Value option" where
  "handleResult e fg result vtReference =
     (if isTemporary e \<and> isManaged (expressionType e)
      then (addTemporaryObject result vtReference fg, result)
      else (fg, result))"

text \<open>
  Modelled from the spec: \<open>generate\<close> of a class that inherits \<open>ASTUnaryMFForwarding\<close> is
  not in the header. Such a node generates \<open>expr_\<close> (\<open>generateChild\<close>, the virtual call)
  and computes its own value from the child's (\<open>own\<close>); it must never call
  \<open>handleResult\<close> on its own result.
\<close>

fun ASTUnaryMFForwarding_generate ::
  "(FunctionCodeGenerator \<Rightarrow> ASTExpr \<Rightarrow> FunctionCodeGenerator \<times> Value option)
     \<Rightarrow> (Value option \<Rightarrow> Value option) \<Rightarrow> FunctionCodeGenerator \<Rightarrow> ASTExpr
     \<Rightarrow> (FunctionCodeGenerator \<times> Value option) option" where
  "ASTUnaryMFForwarding_generate generateChild own fg (ASTUnaryMFForwarding d e) =
     (case generateChild fg e of (fg', v) \<Rightarrow> Some (fg', own v))"
| "ASTUnaryMFForwarding_generate generateChild own fg e = None"

text \<open>
  Modelled from the spec: \<open>ASTSizeOf::analyse\<close> is declared in the header and defined
  outside it. It resolves \<open>type_\<close> (\<open>resolve\<close>, which has no result for an unresolvable
  type) and fails with a semantic fault if that fails; the node's value is a size
  constant, never a managed value, and its type is recorded in the node.
\<close>

fun ASTSizeOf_analyse ::
  "(ASTType \<Rightarrow> Type option) \<Rightarrow> ASTExpr \<Rightarrow> (CompilerError + ASTExpr \<times> Type) option" where
  "ASTSizeOf_analyse resolve (ASTSizeOf d t) =
     (case resolve t of
        None \<Rightarrow> Some (Inl SemanticError)
      | Some ty \<Rightarrow> Some (Inr (setExpressionType Integer (ASTSizeOf d t), Integer)))"
| "ASTSizeOf_analyse resolve e = None"

section \<open>Properties\<close>

subsection \<open>Auxiliary facts\<close>

lemma isTemporary_unsetIsTemporary: "\<not> isTemporary (unsetIsTemporary e)"
  by (cases e) (simp_all add: isTemporary_def)

lemma temporaries_head: "temporaries e = isTemporary e # tl (temporaries e)"
  by (cases e) (simp_all add: isTemporary_def)

lemma temporaries_unsetIsTemporary:
  "list_all2 (\<lambda>new old. new \<longrightarrow> old) (temporaries (unsetIsTemporary e)) (temporaries e)"
  by (induction e) (simp_all add: list_all2_refl)

lemma temporaries_setExpressionType: "temporaries (setExpressionType t e) = temporaries e"
  by (cases e) (simp_all add: setExpressionType_def)

lemma callChildren_updateCallData:
  "callChildren (map_ASTCall f (updateCallData u c)) = callChildren (map_ASTCall f c)"
  by (cases c) simp_all

lemma callData_updateCallData: "callData (updateCallData u c) = u (callData c)"
  by (cases c) simp_all

lemma temporaries_setHandledError:
  "onCall setHandledError e = Some e' \<Longrightarrow> temporaries e' = temporaries e"
  by (cases e) (auto simp: setHandledError_def callChildren_updateCallData)

lemma temporaries_setErrorPointer:
  "onCall (setErrorPointer v) e = Some e' \<Longrightarrow> temporaries e' = temporaries e"
  by (cases e) (auto simp: setErrorPointer_def callChildren_updateCallData)

lemma analyseMemoryFlow_same:
  "analyseMemoryFlow a c e = Some (a', e') \<Longrightarrow> e' = e \<and> a' = a"
  by (cases e) auto

lemma applyOp_keeps_temporaries:
  "applyOp x e = Some e' \<Longrightarrow> x \<noteq> OpUnsetIsTemporary \<Longrightarrow> temporaries e' = temporaries e"
  by (cases x)
    (auto simp: temporaries_setExpressionType mutateReference_def temporaries_setHandledError
      temporaries_setErrorPointer dest: analyseMemoryFlow_same)

lemma applyOp_temporaries_mono:
  "applyOp x e = Some e' \<Longrightarrow>
     list_all2 (\<lambda>new old. new \<longrightarrow> old) (temporaries e') (temporaries e)"
  by (cases "x = OpUnsetIsTemporary")
    (auto simp: temporaries_unsetIsTemporary applyOp_keeps_temporaries list_all2_refl)

lemma applyOps_step:
  assumes "applyOps (x # xs) e = Some e'"
  obtains e1 where "applyOp x e = Some e1" and "applyOps xs e1 = Some e'"
  using assms by (auto split: option.splits)

lemma applyOps_temporaries_mono:
  "applyOps xs e = Some e' \<Longrightarrow>
     list_all2 (\<lambda>new old. new \<longrightarrow> old) (temporaries e') (temporaries e)"
proof (induction xs arbitrary: e)
  case Nil
  then show ?case by (simp add: list_all2_refl)
next
  case (Cons x xs)
  from Cons.prems obtain e1 where 1: "applyOp x e = Some e1" and 2: "applyOps xs e1 = Some e'"
    by (rule applyOps_step)
  from Cons.IH[OF 2] applyOp_temporaries_mono[OF 1]
  have "list_all2 ((\<lambda>new old. new \<longrightarrow> old) OO (\<lambda>new old. new \<longrightarrow> old))
          (temporaries e') (temporaries e)"
    by (rule list_all2_trans[rotated 1]) auto
  then show ?case
    by (rule list_all2_mono) auto
qed

lemma applyOps_keeps_temporaries:
  "applyOps xs e = Some e' \<Longrightarrow> OpUnsetIsTemporary \<notin> set xs \<Longrightarrow> temporaries e' = temporaries e"
proof (induction xs arbitrary: e)
  case Nil
  then show ?case by simp
next
  case (Cons x xs)
  from Cons.prems(1) obtain e1 where 1: "applyOp x e = Some e1"
    and 2: "applyOps xs e1 = Some e'"
    by (rule applyOps_step)
  from Cons.prems have "x \<noteq> OpUnsetIsTemporary" "OpUnsetIsTemporary \<notin> set xs" by auto
  with Cons.IH[OF 2] applyOp_keeps_temporaries[OF 1] show ?case by simp
qed

lemma applyOps_not_temporary:
  "applyOps xs e = Some e' \<Longrightarrow> \<not> isTemporary e \<Longrightarrow> \<not> isTemporary e'"
  using applyOps_temporaries_mono[of xs e e'] temporaries_head[of e] temporaries_head[of e']
  by (metis list_all2_Cons)

lemma applyOps_unset_not_temporary:
  "applyOps xs e = Some e' \<Longrightarrow> OpUnsetIsTemporary \<in> set xs \<Longrightarrow> \<not> isTemporary e'"
proof (induction xs arbitrary: e)
  case Nil
  then show ?case by simp
next
  case (Cons x xs)
  from Cons.prems(1) obtain e1 where 1: "applyOp x e = Some e1"
    and 2: "applyOps xs e1 = Some e'"
    by (rule applyOps_step)
  show ?case
  proof (cases "x = OpUnsetIsTemporary")
    case True
    with 1 have "\<not> isTemporary e1" by (auto simp: isTemporary_unsetIsTemporary)
    with 2 show ?thesis by (rule applyOps_not_temporary)
  next
    case False
    with Cons.prems have "OpUnsetIsTemporary \<in> set xs" by auto
    with Cons.IH[OF 2] show ?thesis .
  qed
qed

lemma applyOp_call:
  "applyOp x (ASTCallExpr d0 c0) = Some e1 \<Longrightarrow> \<exists>d1 c1. e1 = ASTCallExpr d1 c1"
  by (cases x) (auto simp: setExpressionType_def mutateReference_def)

lemma applyOp_handledError:
  "applyOp x (ASTCallExpr d0 c0) = Some (ASTCallExpr d c) \<Longrightarrow>
     handledError_m (callData c) = (handledError_m (callData c0) \<or> x = OpSetHandledError)"
  by (cases x)
    (auto simp: setExpressionType_def mutateReference_def setHandledError_def
      setErrorPointer_def callData_updateCallData)

lemma applyOps_handledError:
  "applyOps xs (ASTCallExpr d0 c0) = Some (ASTCallExpr d c) \<Longrightarrow>
     handledError_m (callData c) = (handledError_m (callData c0) \<or> OpSetHandledError \<in> set xs)"
proof (induction xs arbitrary: d0 c0)
  case Nil
  then show ?case by simp
next
  case (Cons x xs)
  from Cons.prems obtain e1 where 1: "applyOp x (ASTCallExpr d0 c0) = Some e1"
    and 2: "applyOps xs e1 = Some (ASTCallExpr d c)"
    by (rule applyOps_step)
  from 1 obtain d1 c1 where e1: "e1 = ASTCallExpr d1 c1"
    using applyOp_call by blast
  from Cons.IH[OF 2[unfolded e1]] applyOp_handledError[OF 1[unfolded e1]]
  show ?case by auto
qed

lemma applyOp_errorPointer:
  "applyOp x (ASTCallExpr d0 c0) = Some (ASTCallExpr d c) \<Longrightarrow>
     errorPointer c = (case x of OpSetErrorPointer v \<Rightarrow> v | _ \<Rightarrow> errorPointer c0)"
  by (cases x)
    (auto simp: setExpressionType_def mutateReference_def setHandledError_def
      setErrorPointer_def callData_updateCallData errorPointer_def)

lemma applyOps_errorPointer:
  "applyOps xs (ASTCallExpr d0 c0) = Some (ASTCallExpr d c) \<Longrightarrow>
     \<forall>v. OpSetErrorPointer (Some v) \<notin> set xs \<Longrightarrow> errorPointer c0 = None \<Longrightarrow>
     errorPointer c = None"
proof (induction xs arbitrary: d0 c0)
  case Nil
  then show ?case by simp
next
  case (Cons x xs)
  from Cons.prems(1) obtain e1 where 1: "applyOp x (ASTCallExpr d0 c0) = Some e1"
    and 2: "applyOps xs e1 = Some (ASTCallExpr d c)"
    by (rule applyOps_step)
  from 1 obtain d1 c1 where e1: "e1 = ASTCallExpr d1 c1"
    using applyOp_call by blast
  from applyOp_errorPointer[OF 1[unfolded e1]] Cons.prems(2,3)
  have "errorPointer c1 = None"
    by (cases x; cases "errorPointer c1") auto
  with Cons.IH[OF 2[unfolded e1]] Cons.prems(2) show ?case by auto
qed

lemma args_applyArgumentsOps:
  "args (applyArgumentsOps ops a) = args a @ addedArguments ops"
proof (induction ops arbitrary: a)
  case Nil
  then show ?case by simp
next
  case (Cons x xs)
  then show ?case
    by (cases x)
      (simp_all add: addGenericArgument_def addArguments_def setMood_def
        setGenericArgumentTypes_def)
qed

lemma addedArguments_map: "addedArguments (map OpAddArguments es) = es"
  by (induction es) simp_all

lemma wrapper_differs: "ASTUnary d e \<noteq> e" "ASTUnaryMFForwarding d e \<noteq> e"
  by (auto dest: arg_cong[where f = size])

subsection \<open>The error obligation of a call node\<close>

text \<open>
  C1. A call node leaves its constructor with \<open>handledError_\<close> false and no error
  destination, and is then operated on through the header's members. If \<open>isErrorProne()\<close>
  is true when its analysis ends, the unhandled-error fault is raised, and code generation
  is not reached, exactly if \<open>setHandledError\<close> was never invoked and no error destination
  is set; otherwise no fault is raised and the node is generated. An error destination is
  set only by a call of \<open>setErrorPointer\<close> with a non-null pointer.
\<close>

theorem unhandled_error_fault:
  assumes "applyOps ops (ASTCallExpr d0 c0) = Some (ASTCallExpr d c)"
    and "callData c0 = ASTCall_new"
    and "isErrorProne superErrorProne c"
  shows "(compileCall superErrorProne generate c = Inl UnhandledError) =
           (OpSetHandledError \<notin> set ops \<and> errorPointer c = None)
       \<and> (compileCall superErrorProne generate c \<noteq> Inl UnhandledError \<longrightarrow>
            compileCall superErrorProne generate c = Inr (generate c))
       \<and> ((\<forall>v. OpSetErrorPointer (Some v) \<notin> set ops) \<longrightarrow> errorPointer c = None)"
proof -
  have h: "handledError_m (callData c) = (OpSetHandledError \<in> set ops)"
    using applyOps_handledError[OF assms(1)] assms(2) by (simp add: ASTCall_new_def)
  have p: "(\<forall>v. OpSetErrorPointer (Some v) \<notin> set ops) \<longrightarrow> errorPointer c = None"
    using applyOps_errorPointer[OF assms(1)] assms(2)
    by (simp add: ASTCall_new_def errorPointer_def)
  show ?thesis
    using h p assms(3) by (auto simp: compileCall_def ensureErrorIsHandled_def)
qed

text \<open>
  The theorem at a superclass call that is error-prone: untouched by \<open>setHandledError\<close>
  and \<open>setErrorPointer\<close> it faults; after both it is generated.
\<close>

theorem unhandled_error_fault_witness:
  "applyOps [OpSetExpressionType Integer, OpMutateReference :: unit ExprOp]
     (ASTCallExpr (ASTExpr_new (SourcePosition 3 5 ''main.emojic''))
        (ASTSuper ASTCall_new [128007] None noReturn
           (ASTArguments_new (SourcePosition 3 7 ''main.emojic'')) False False))
   = Some (ASTCallExpr
        \<lparr>position = SourcePosition 3 5 ''main.emojic'', isTemporary_m = True,
           expressionType_m = Integer\<rparr>
        (ASTSuper ASTCall_new [128007] None noReturn
           (ASTArguments_new (SourcePosition 3 7 ''main.emojic'')) False False))
   \<and> isErrorProne (\<lambda>c. True)
        (ASTSuper ASTCall_new [128007] None noReturn
           (ASTArguments_new (SourcePosition 3 7 ''main.emojic'')) False False
         :: ASTExpr ASTCall)
   \<and> compileCall (\<lambda>c. True) errorPointer
        (ASTSuper ASTCall_new [128007] None noReturn
           (ASTArguments_new (SourcePosition 3 7 ''main.emojic'')) False False
         :: ASTExpr ASTCall) = Inl UnhandledError
   \<and> applyOps [OpSetErrorPointer (Some 9), OpSetHandledError :: unit ExprOp]
     (ASTCallExpr (ASTExpr_new (SourcePosition 3 5 ''main.emojic''))
        (ASTSuper ASTCall_new [128007] None noReturn
           (ASTArguments_new (SourcePosition 3 7 ''main.emojic'')) False False))
   = Some (ASTCallExpr (ASTExpr_new (SourcePosition 3 5 ''main.emojic''))
        (ASTSuper \<lparr>handledError_m = True, errorDest_m = Some 9\<rparr> [128007] None noReturn
           (ASTArguments_new (SourcePosition 3 7 ''main.emojic'')) False False))
   \<and> compileCall (\<lambda>c. True) errorPointer
        (ASTSuper \<lparr>handledError_m = True, errorDest_m = Some 9\<rparr> [128007] None noReturn
           (ASTArguments_new (SourcePosition 3 7 ''main.emojic'')) False False
         :: ASTExpr ASTCall) = Inr (Some 9)"
  using unhandled_error_fault[of
      "[OpSetExpressionType Integer, OpMutateReference :: unit ExprOp]"
      "ASTExpr_new (SourcePosition 3 5 ''main.emojic'')"
      "ASTSuper ASTCall_new [128007] None noReturn
         (ASTArguments_new (SourcePosition 3 7 ''main.emojic'')) False False"
      "\<lparr>position = SourcePosition 3 5 ''main.emojic'', isTemporary_m = True,
         expressionType_m = Integer\<rparr>"
      "ASTSuper ASTCall_new [128007] None noReturn
         (ASTArguments_new (SourcePosition 3 7 ''main.emojic'')) False False"
      "\<lambda>c. True" errorPointer]
    unhandled_error_fault[of
      "[OpSetErrorPointer (Some 9), OpSetHandledError :: unit ExprOp]"
      "ASTExpr_new (SourcePosition 3 5 ''main.emojic'')"
      "ASTSuper ASTCall_new [128007] None noReturn
         (ASTArguments_new (SourcePosition 3 7 ''main.emojic'')) False False"
      "ASTExpr_new (SourcePosition 3 5 ''main.emojic'')"
      "ASTSuper \<lparr>handledError_m = True, errorDest_m = Some 9\<rparr> [128007] None noReturn
         (ASTArguments_new (SourcePosition 3 7 ''main.emojic'')) False False"
      "\<lambda>c. True" errorPointer]
  by (simp add: ASTExpr_new_def setExpressionType_def mutateReference_def errorPointer_def
      ASTCall_new_def setErrorPointer_def setHandledError_def)

subsection \<open>Fresh nodes\<close>

text \<open>
  C2. Whatever class of the header a node is constructed as, and whatever the state of
  the child it is given, right after construction \<open>expressionType()\<close> is
  \<open>Type::noReturn()\<close> and \<open>isTemporary()\<close> is true.
\<close>

theorem fresh_node_state:
  "expressionType (ASTUnary_new v p) = noReturn \<and> isTemporary (ASTUnary_new v p)
   \<and> expressionType (ASTUnaryMFForwarding_new v p) = noReturn
   \<and> isTemporary (ASTUnaryMFForwarding_new v p)
   \<and> expressionType (ASTTypeAsValue_new t k p) = noReturn
   \<and> isTemporary (ASTTypeAsValue_new t k p)
   \<and> expressionType (ASTSizeOf_new t p) = noReturn \<and> isTemporary (ASTSizeOf_new t p)
   \<and> expressionType (ASTCallableCall_new v as p) = noReturn
   \<and> isTemporary (ASTCallableCall_new v as p)
   \<and> expressionType (ASTSuper_new name as p) = noReturn \<and> isTemporary (ASTSuper_new name as p)
   \<and> expressionType (ASTConditionalAssignment_new name v p) = noReturn
   \<and> isTemporary (ASTConditionalAssignment_new name v p)"
  by (simp add: expressionType_def isTemporary_def ASTExpr_new_def ASTUnary_new_def
      ASTUnaryMFForwarding_new_def ASTTypeAsValue_new_def ASTSizeOf_new_def
      ASTCallableCall_new_def ASTSuper_new_def ASTConditionalAssignment_new_def)

subsection \<open>The temporary flag\<close>

text \<open>
  C3. Over any sequence of the operations of a node, the node is temporary afterwards
  exactly if it was before and \<open>unsetIsTemporary\<close> is not in the sequence; no flag of
  the node or of a node below it goes from false to true; and a sequence without
  \<open>unsetIsTemporary\<close> leaves all of these flags as they were.
\<close>

theorem isTemporary_monotonic:
  assumes "applyOps ops e = Some e'"
  shows "isTemporary e' = (isTemporary e \<and> OpUnsetIsTemporary \<notin> set ops)
       \<and> list_all2 (\<lambda>new old. new \<longrightarrow> old) (temporaries e') (temporaries e)
       \<and> (OpUnsetIsTemporary \<notin> set ops \<longrightarrow> temporaries e' = temporaries e)"
proof -
  have "isTemporary e' = (isTemporary e \<and> OpUnsetIsTemporary \<notin> set ops)"
  proof (cases "OpUnsetIsTemporary \<in> set ops")
    case True
    with assms show ?thesis by (simp add: applyOps_unset_not_temporary)
  next
    case False
    with assms have "temporaries e' = temporaries e" by (simp add: applyOps_keeps_temporaries)
    with temporaries_head[of e] temporaries_head[of e'] False show ?thesis
      by (metis list.inject)
  qed
  with assms show ?thesis
    by (simp add: applyOps_temporaries_mono applyOps_keeps_temporaries)
qed

text \<open>
  The theorem at a forwarding wrapper of a size-of node, with and without
  \<open>unsetIsTemporary\<close> among the operations.
\<close>

theorem isTemporary_monotonic_witness:
  "applyOps [OpUnsetIsTemporary, OpSetExpressionType Integer, OpMutateReference :: nat ExprOp]
     (ASTUnaryMFForwarding_new (ASTSizeOf_new 4 (SourcePosition 2 9 ''a.emojic''))
        (SourcePosition 2 8 ''a.emojic''))
   = Some (ASTUnaryMFForwarding
        \<lparr>position = SourcePosition 2 8 ''a.emojic'', isTemporary_m = False,
           expressionType_m = Integer\<rparr>
        (ASTSizeOf
           \<lparr>position = SourcePosition 2 9 ''a.emojic'', isTemporary_m = False,
              expressionType_m = NoReturn\<rparr> 4))
   \<and> temporaries (ASTUnaryMFForwarding_new (ASTSizeOf_new 4 (SourcePosition 2 9 ''a.emojic''))
        (SourcePosition 2 8 ''a.emojic'')) = [True, True]
   \<and> temporaries (ASTUnaryMFForwarding
        \<lparr>position = SourcePosition 2 8 ''a.emojic'', isTemporary_m = False,
           expressionType_m = Integer\<rparr>
        (ASTSizeOf
           \<lparr>position = SourcePosition 2 9 ''a.emojic'', isTemporary_m = False,
              expressionType_m = NoReturn\<rparr> 4)) = [False, False]
   \<and> applyOps [OpAnalyseMemoryFlow 1, OpSetExpressionType Integer :: nat ExprOp]
        (ASTSizeOf_new 4 (SourcePosition 2 9 ''a.emojic''))
      = Some (ASTSizeOf
           \<lparr>position = SourcePosition 2 9 ''a.emojic'', isTemporary_m = True,
              expressionType_m = Integer\<rparr> 4)
   \<and> isTemporary (ASTSizeOf
           \<lparr>position = SourcePosition 2 9 ''a.emojic'', isTemporary_m = True,
              expressionType_m = Integer\<rparr> 4)"
  using isTemporary_monotonic[of
      "[OpUnsetIsTemporary, OpSetExpressionType Integer, OpMutateReference :: nat ExprOp]"
      "ASTUnaryMFForwarding_new (ASTSizeOf_new 4 (SourcePosition 2 9 ''a.emojic''))
        (SourcePosition 2 8 ''a.emojic'')"
      "ASTUnaryMFForwarding
        \<lparr>position = SourcePosition 2 8 ''a.emojic'', isTemporary_m = False,
           expressionType_m = Integer\<rparr>
        (ASTSizeOf
           \<lparr>position = SourcePosition 2 9 ''a.emojic'', isTemporary_m = False,
              expressionType_m = NoReturn\<rparr> 4)"]
    isTemporary_monotonic[of
      "[OpAnalyseMemoryFlow 1, OpSetExpressionType Integer :: nat ExprOp]"
      "ASTSizeOf_new 4 (SourcePosition 2 9 ''a.emojic'')"
      "ASTSizeOf
           \<lparr>position = SourcePosition 2 9 ''a.emojic'', isTemporary_m = True,
              expressionType_m = Integer\<rparr> 4"]
  by (simp add: ASTUnaryMFForwarding_new_def ASTSizeOf_new_def ASTExpr_new_def noReturn_def
      setExpressionType_def mutateReference_def isTemporary_def)

text \<open>
  C4. \<open>unsetIsTemporary\<close> on a node of \<open>ASTUnaryMFForwarding\<close> leaves as its child the
  child after \<open>unsetIsTemporary\<close>, which is not temporary; and generating the wrapper
  registers the temporary objects that generating the child registers and no other, the
  wrapper never passing its own result to \<open>handleResult\<close>.
\<close>

theorem forwarding_unsetIsTemporary:
  "children (unsetIsTemporary (ASTUnaryMFForwarding d e)) = [unsetIsTemporary e]
   \<and> \<not> isTemporary (unsetIsTemporary e)
   \<and> (case ASTUnaryMFForwarding_generate generateChild own fg (ASTUnaryMFForwarding d e) of
        None \<Rightarrow> False
      | Some (fg', v) \<Rightarrow>
          temporaryObjects fg' = temporaryObjects (fst (generateChild fg e))
          \<and> v = own (snd (generateChild fg e)))"
  by (simp add: isTemporary_unsetIsTemporary split: prod.splits)

text \<open>
  The theorem at a wrapper that is itself temporary and of a managed type, over a child
  that passes its value to \<open>handleResult\<close>: the child's value is the one temporary object.
\<close>

theorem forwarding_unsetIsTemporary_witness:
  "producesTemporaryObject
     (ASTUnaryMFForwarding
        \<lparr>position = SourcePosition 5 1 ''a.emojic'', isTemporary_m = True,
           expressionType_m = ManagedType 2\<rparr>
        (ASTTypeAsValue
           \<lparr>position = SourcePosition 5 1 ''a.emojic'', isTemporary_m = True,
              expressionType_m = ManagedType 2\<rparr> 3 0))
   \<and> ASTUnaryMFForwarding_generate (\<lambda>fg e. handleResult e fg (Some 7) None) (\<lambda>v. v)
        \<lparr>temporaryObjects = []\<rparr>
        (ASTUnaryMFForwarding
           \<lparr>position = SourcePosition 5 1 ''a.emojic'', isTemporary_m = True,
              expressionType_m = ManagedType 2\<rparr>
           (ASTTypeAsValue
              \<lparr>position = SourcePosition 5 1 ''a.emojic'', isTemporary_m = True,
                 expressionType_m = ManagedType 2\<rparr> 3 0))
      = Some (\<lparr>temporaryObjects = [(Some 7, None)]\<rparr>, Some 7)
   \<and> children (unsetIsTemporary
        (ASTUnaryMFForwarding
           \<lparr>position = SourcePosition 5 1 ''a.emojic'', isTemporary_m = True,
              expressionType_m = ManagedType 2\<rparr>
           (ASTTypeAsValue
              \<lparr>position = SourcePosition 5 1 ''a.emojic'', isTemporary_m = True,
                 expressionType_m = ManagedType 2\<rparr> 3 0)))
      = [ASTTypeAsValue
           \<lparr>position = SourcePosition 5 1 ''a.emojic'', isTemporary_m = False,
              expressionType_m = ManagedType 2\<rparr> 3 0]"
  using forwarding_unsetIsTemporary[where
      d = "\<lparr>position = SourcePosition 5 1 ''a.emojic'', isTemporary_m = True,
         expressionType_m = ManagedType 2\<rparr>"
      and e = "ASTTypeAsValue
         \<lparr>position = SourcePosition 5 1 ''a.emojic'', isTemporary_m = True,
            expressionType_m = ManagedType 2\<rparr> 3 0"
      and generateChild = "\<lambda>fg e. handleResult e fg (Some 7) None"
      and own = "\<lambda>v. v" and fg = "\<lparr>temporaryObjects = []\<rparr>"]
  by (simp add: producesTemporaryObject_def isTemporary_def expressionType_def handleResult_def
      addTemporaryObject_def)

text \<open>
  C10. \<open>unsetIsTemporary\<close> is idempotent on every node, forwarding wrappers and the
  children they forward to included.
\<close>

theorem unsetIsTemporary_idempotent:
  "unsetIsTemporary (unsetIsTemporary e) = unsetIsTemporary e"
  by (induction e) simp_all

subsection \<open>Callable invocation\<close>

text \<open>
  C5. For every \<open>ASTCallableCall\<close>, whatever its callable and its arguments,
  \<open>isErrorProne()\<close> is false and \<open>errorType()\<close> is the expression type of the callable.
\<close>

theorem callableCall_error_contract:
  "isErrorProne superErrorProne (ASTCallableCall c callable as) = False
   \<and> errorType superErrorType (ASTCallableCall c callable as) = expressionType callable"
  by simp

subsection \<open>Argument lists\<close>

text \<open>
  C6, as the header has it. \<open>setGenericArgumentTypes\<close> stores the list it is given, as a
  whole, and leaves the generic arguments as they are; it compares no lengths. So
  afterwards \<open>genericArgumentTypes()\<close> is as long as \<open>genericArguments()\<close> exactly if the
  list passed is.
\<close>

theorem setGenericArgumentTypes_stores_list:
  "genericArgumentTypes (setGenericArgumentTypes types a) = types
   \<and> genericArguments (setGenericArgumentTypes types a) = genericArguments a
   \<and> (length (genericArgumentTypes (setGenericArgumentTypes types a))
        = length (genericArguments (setGenericArgumentTypes types a)))
      = (length types = length (genericArguments a))"
  by (simp add: setGenericArgumentTypes_def)

text \<open>
  On an argument list without generic arguments, \<open>setGenericArgumentTypes\<close> with one type
  leaves one resolved type for no generic argument.
\<close>

theorem setGenericArgumentTypes_length_counterexample:
  "length (genericArgumentTypes (setGenericArgumentTypes [Integer]
      (ASTArguments_new (SourcePosition 1 1 ''a.emojic'') :: ASTExpr ASTArguments)))
   \<noteq> length (genericArguments (setGenericArgumentTypes [Integer]
      (ASTArguments_new (SourcePosition 1 1 ''a.emojic'') :: ASTExpr ASTArguments)))"
  by (simp add: setGenericArgumentTypes_def ASTArguments_new_def)

text \<open>
  C7. After any sequence of operations on an argument list, \<open>args()\<close> is the arguments it
  was constructed with followed by the expressions passed to \<open>addArguments\<close>, each once
  and in call order; after \<open>addArguments\<close> calls alone on a new list, it is the expressions
  passed.
\<close>

theorem addArguments_order:
  "args (applyArgumentsOps ops (ASTArguments_new p)) = addedArguments ops
   \<and> args (applyArgumentsOps ops (ASTArguments_newMood p m)) = addedArguments ops
   \<and> args (applyArgumentsOps ops (ASTArguments_newArgs p as)) = as @ addedArguments ops
   \<and> args (applyArgumentsOps ops a) = args a @ addedArguments ops
   \<and> args (applyArgumentsOps (map OpAddArguments es) (ASTArguments_new p)) = es"
  by (simp add: args_applyArgumentsOps addedArguments_map ASTArguments_new_def
      ASTArguments_newMood_def ASTArguments_newArgs_def)

subsection \<open>Insertion\<close>

text \<open>
  C8. \<open>insertNode\<close> on a slot holding a node constructs the new node from that node, its
  position and the further arguments, stores it in the slot and returns it. With the
  constructor of \<open>ASTUnary\<close> or \<open>ASTUnaryMFForwarding\<close> the new node has the position of
  the original, the original as its only child, and is not the original: the slot holds
  the original as the child of the new node only.
\<close>

theorem insertNode_wraps:
  "insertNode T (Some e) as = Some (Some (T e (nodePosition e) as), T e (nodePosition e) as)
   \<and> nodePosition (ASTUnary_new e (nodePosition e)) = nodePosition e
   \<and> children (ASTUnary_new e (nodePosition e)) = [e]
   \<and> ASTUnary_new e (nodePosition e) \<noteq> e
   \<and> nodePosition (ASTUnaryMFForwarding_new e (nodePosition e)) = nodePosition e
   \<and> children (ASTUnaryMFForwarding_new e (nodePosition e)) = [e]
   \<and> ASTUnaryMFForwarding_new e (nodePosition e) \<noteq> e"
  by (simp add: insertNode_def Let_def ASTUnary_new_def ASTUnaryMFForwarding_new_def
      nodePosition_def ASTExpr_new_def wrapper_differs)

subsection \<open>Size-of\<close>

text \<open>
  C9. \<open>analyseMemoryFlow\<close> on an \<open>ASTSizeOf\<close> node leaves the analyser and the node as
  they are, whatever the flow category. A new size-of node produces no temporary object,
  and neither does an analysed one, before and after its memory flow analysis.
\<close>

theorem sizeOf_memory_flow:
  "analyseMemoryFlow analyser c (ASTSizeOf d t) = Some (analyser, ASTSizeOf d t)
   \<and> \<not> producesTemporaryObject (ASTSizeOf_new t p)
   \<and> (ASTSizeOf_analyse resolve (ASTSizeOf d t) = Some (Inr (n, ty)) \<longrightarrow>
        analyseMemoryFlow analyser c n = Some (analyser, n) \<and> \<not> producesTemporaryObject n)"
  by (auto simp: producesTemporaryObject_def expressionType_def setExpressionType_def
      ASTSizeOf_new_def ASTExpr_new_def noReturn_def split: option.splits)

text \<open>The theorem at a size-of node over a type that resolves to a managed type.\<close>

theorem sizeOf_memory_flow_witness:
  "ASTSizeOf_analyse (\<lambda>t. Some (ManagedType t)) (ASTSizeOf_new 4 (SourcePosition 2 9 ''a.emojic''))
     = Some (Inr (ASTSizeOf
          \<lparr>position = SourcePosition 2 9 ''a.emojic'', isTemporary_m = True,
             expressionType_m = Integer\<rparr> 4, Integer))
   \<and> analyseMemoryFlow () (1 :: nat) (ASTSizeOf
          \<lparr>position = SourcePosition 2 9 ''a.emojic'', isTemporary_m = True,
             expressionType_m = Integer\<rparr> 4)
     = Some ((), ASTSizeOf
          \<lparr>position = SourcePosition 2 9 ''a.emojic'', isTemporary_m = True,
             expressionType_m = Integer\<rparr> 4)
   \<and> \<not> producesTemporaryObject (ASTSizeOf
          \<lparr>position = SourcePosition 2 9 ''a.emojic'', isTemporary_m = True,
             expressionType_m = Integer\<rparr> 4)"
  using sizeOf_memory_flow[where analyser = "()" and c = "1 :: nat"
      and d = "ASTExpr_new (SourcePosition 2 9 ''a.emojic'')" and t = 4
      and resolve = "\<lambda>t. Some (ManagedType t)"
      and n = "ASTSizeOf
          \<lparr>position = SourcePosition 2 9 ''a.emojic'', isTemporary_m = True,
             expressionType_m = Integer\<rparr> 4"
      and ty = Integer]
  by (simp add: ASTSizeOf_new_def ASTExpr_new_def setExpressionType_def)

end
